theory Spec2Isabelle
  imports Main "HOL-Library.AList" "HOL-Library.Product_Lexorder" "HOL-Library.Sublist"
begin

section \<open>Strings\<close>

text \<open>
  Python strings are modelled as HOL strings restricted to ASCII text. The whitespace
  of \<^verbatim>\<open>str.strip()\<close> and of the regular expression class \<^verbatim>\<open>\s\<close> is, below 128, the
  code points 9 to 13, 28 to 31 and 32.
\<close>

definition is_space :: "char \<Rightarrow> bool" where
  "is_space c = (let n = (of_char c :: nat) in (9 \<le> n \<and> n \<le> 13) \<or> (28 \<le> n \<and> n \<le> 32))"

definition is_digit :: "char \<Rightarrow> bool" where
  "is_digit c = (let n = (of_char c :: nat) in 48 \<le> n \<and> n \<le> 57)"

definition digit_val :: "char \<Rightarrow> nat" where
  "digit_val c = (of_char c :: nat) - 48"

definition lower_char :: "char \<Rightarrow> char" where
  "lower_char c = (let n = (of_char c :: nat) in if 65 \<le> n \<and> n \<le> 90 then char_of (n + 32) else c)"


text \<open>\<^verbatim>\<open>s.lower()\<close> and \<^verbatim>\<open>s.upper()\<close>.\<close>

definition lower :: "string \<Rightarrow> string" where
  "lower s = map lower_char s"


text \<open>\<^verbatim>\<open>s.strip()\<close>: whitespace removed at both ends.\<close>

definition strip :: "string \<Rightarrow> string" where
  "strip s = rev (dropWhile is_space (rev (dropWhile is_space s)))"

text \<open>\<^verbatim>\<open>s.lstrip(".")\<close>: every leading dot removed.\<close>

definition lstrip_dot :: "string \<Rightarrow> string" where
  "lstrip_dot s = dropWhile (\<lambda>c. c = CHR ''.'') s"

text \<open>\<^verbatim>\<open>s.split(sep)\<close> for a separator of one character; the result is never empty.\<close>

fun split_on :: "char \<Rightarrow> string \<Rightarrow> string list" where
  "split_on sep [] = [[]]"
| "split_on sep (c # cs) =
     (if c = sep then [] # split_on sep cs
      else (case split_on sep cs of
              [] \<Rightarrow> [[c]]
            | p # ps \<Rightarrow> (c # p) # ps))"


text \<open>Decimal rendering of a natural number, as \<^verbatim>\<open>str(n)\<close> gives it.\<close>

fun show_nat :: "nat \<Rightarrow> string" where
  "show_nat n =
     (if n < 10 then [char_of (48 + n)]
      else show_nat (n div 10) @ [char_of (48 + n mod 10)])"

declare show_nat.simps [simp del]

section \<open>Exceptions\<close>

text \<open>
  The exceptions the program meets: the framework's \<^verbatim>\<open>HTTPException(status_code, detail)\<close>,
  \<^verbatim>\<open>ValueError\<close> from timestamp parsing, and \<^verbatim>\<open>OSError\<close> (with its subclasses) from the
  filesystem. All of them are subclasses of \<^verbatim>\<open>Exception\<close>.
\<close>

datatype exn = HTTPException nat string | ValueError string | OSError string

text \<open>
  \<^verbatim>\<open>str(e)\<close>. For the framework's exception this is the status code, a colon and the
  detail, as its \<^verbatim>\<open>__str__\<close> method builds it; for the others it is the message.
\<close>

fun str_exn :: "exn \<Rightarrow> string" where
  "str_exn (HTTPException code detail) = show_nat code @ '': '' @ detail"
| "str_exn (ValueError msg) = msg"
| "str_exn (OSError msg) = msg"

section \<open>Timestamps\<close>

text \<open>
  A naive \<^verbatim>\<open>datetime\<close>. Python compares two of them field by field, from the year down
  to the microsecond.
\<close>

record datetime =
  year :: nat
  month :: nat
  day :: nat
  hour :: nat
  minute :: nat
  second :: nat
  microsecond :: nat

definition dt_key :: "datetime \<Rightarrow> nat \<times> nat \<times> nat \<times> nat \<times> nat \<times> nat \<times> nat" where
  "dt_key d = (year d, month d, day d, hour d, minute d, second d, microsecond d)"

definition dt_le :: "datetime \<Rightarrow> datetime \<Rightarrow> bool" where
  "dt_le a b = (dt_key a \<le> dt_key b)"


definition is_leap :: "nat \<Rightarrow> bool" where
  "is_leap y = (y mod 4 = 0 \<and> (y mod 100 \<noteq> 0 \<or> y mod 400 = 0))"

definition days_in_month :: "nat \<Rightarrow> nat \<Rightarrow> nat" where
  "days_in_month y m =
     (if m = 2 then (if is_leap y then 29 else 28)
      else if m = 4 \<or> m = 6 \<or> m = 9 \<or> m = 11 then 30 else 31)"

subsection \<open>Parsing against \<^verbatim>\<open>%Y-%m-%d %H:%M:%S\<close>\<close>

text \<open>
  \<^verbatim>\<open>strptime\<close> turns the format into a regular expression, matches it at the start of
  the input, rejects input that the match leaves unconsumed, and builds the datetime, which
  checks the ranges of the fields. A matcher is modelled as the list of its matches in the
  order in which a backtracking engine tries them: the value read and the rest of the input.
\<close>

type_synonym 'a rx = "string \<Rightarrow> ('a \<times> string) list"

definition rx_range :: "nat \<Rightarrow> nat \<Rightarrow> nat rx" where
  "rx_range lo hi s =
     (case s of
        [] \<Rightarrow> []
      | c # r \<Rightarrow> if is_digit c \<and> lo \<le> digit_val c \<and> digit_val c \<le> hi
                 then [(digit_val c, r)] else [])"

definition rx_lit :: "char \<Rightarrow> unit rx" where
  "rx_lit x s = (case s of [] \<Rightarrow> [] | c # r \<Rightarrow> if c = x then [((), r)] else [])"

text \<open>Two digit classes in a row, read as a number of two digits.\<close>

definition rx_two :: "nat \<Rightarrow> nat \<Rightarrow> nat \<Rightarrow> nat \<Rightarrow> nat rx" where
  "rx_two lo1 hi1 lo2 hi2 s =
     [(10 * a + b, r2). (a, r1) \<leftarrow> rx_range lo1 hi1 s, (b, r2) \<leftarrow> rx_range lo2 hi2 r1]"

text \<open>\<^verbatim>\<open>(?P<Y>\d\d\d\d)\<close>\<close>

definition rx_Y :: "nat rx" where
  "rx_Y s =
     [(100 * a + b, r2). (a, r1) \<leftarrow> rx_two 0 9 0 9 s, (b, r2) \<leftarrow> rx_two 0 9 0 9 r1]"

text \<open>\<^verbatim>\<open>(?P<m>1[0-2]|0[1-9]|[1-9])\<close>\<close>

definition rx_m :: "nat rx" where
  "rx_m s = rx_two 1 1 0 2 s @ rx_two 0 0 1 9 s @ rx_range 1 9 s"

text \<open>\<^verbatim>\<open>(?P<d>3[0-1]|[1-2]\d|0[1-9]|[1-9]| [1-9])\<close>\<close>

definition rx_d :: "nat rx" where
  "rx_d s = rx_two 3 3 0 1 s @ rx_two 1 2 0 9 s @ rx_two 0 0 1 9 s @ rx_range 1 9 s
            @ [(b, r2). (u, r1) \<leftarrow> rx_lit CHR '' '' s, (b, r2) \<leftarrow> rx_range 1 9 r1]"

text \<open>\<^verbatim>\<open>\s+\<close>, which stands for the blank of the format: greedy, longest match first.\<close>

definition rx_ws :: "unit rx" where
  "rx_ws s = [((), drop n s). n \<leftarrow> rev [1 ..< Suc (length (takeWhile is_space s))]]"

text \<open>\<^verbatim>\<open>(?P<H>2[0-3]|[0-1]\d|\d)\<close>\<close>

definition rx_H :: "nat rx" where
  "rx_H s = rx_two 2 2 0 3 s @ rx_two 0 1 0 9 s @ rx_range 0 9 s"

text \<open>\<^verbatim>\<open>(?P<M>[0-5]\d|\d)\<close>\<close>

definition rx_M :: "nat rx" where
  "rx_M s = rx_two 0 5 0 9 s @ rx_range 0 9 s"

text \<open>\<^verbatim>\<open>(?P<S>6[0-1]|[0-5]\d|\d)\<close>\<close>

definition rx_S :: "nat rx" where
  "rx_S s = rx_two 6 6 0 1 s @ rx_two 0 5 0 9 s @ rx_range 0 9 s"

definition rx_format :: "(nat \<times> nat \<times> nat \<times> nat \<times> nat \<times> nat) rx" where
  "rx_format s =
     [((Y, m, d, H, M, S), r11).
        (Y, r1) \<leftarrow> rx_Y s, (u1, r2) \<leftarrow> rx_lit CHR ''-'' r1,
        (m, r3) \<leftarrow> rx_m r2, (u2, r4) \<leftarrow> rx_lit CHR ''-'' r3,
        (d, r5) \<leftarrow> rx_d r4, (u3, r6) \<leftarrow> rx_ws r5,
        (H, r7) \<leftarrow> rx_H r6, (u4, r8) \<leftarrow> rx_lit CHR '':'' r7,
        (M, r9) \<leftarrow> rx_M r8, (u5, r10) \<leftarrow> rx_lit CHR '':'' r9,
        (S, r11) \<leftarrow> rx_S r10]"

text \<open>
  \<^verbatim>\<open>datetime.datetime.strptime(s, "%Y-%m-%d %H:%M:%S")\<close>: the first match counts; every
  failure is a \<^verbatim>\<open>ValueError\<close>.
\<close>

definition strptime :: "string \<Rightarrow> exn + datetime" where
  "strptime s =
     (case rx_format s of
        [] \<Rightarrow> Inl (ValueError ''time data does not match format'')
      | ((Y, m, d, H, M, S), rest) # _ \<Rightarrow>
          if rest \<noteq> [] then Inl (ValueError ''unconverted data remains'')
          else if Y < 1 then Inl (ValueError ''year is out of range'')
          else if days_in_month Y m < d then Inl (ValueError ''day is out of range for month'')
          else if 59 < S then Inl (ValueError ''second must be in 0..59'')
          else Inr \<lparr>year = Y, month = m, day = d, hour = H, minute = M, second = S,
                    microsecond = 0\<rparr>)"

section \<open>The filesystem\<close>

text \<open>
  The filesystem is a tree. A directory lists its entries in the order in which a scan of
  the directory returns them; a file carries what the program reads of it: its
  modification time and its creation (status change) time, both already converted to naive
  local datetimes as \<^verbatim>\<open>datetime.fromtimestamp\<close> gives them, whether it may be read, and its
  content. A path is the list of its components from the root of the tree, so
  \<^verbatim>\<open>os.path.join\<close> is concatenation and \<^verbatim>\<open>os.path.basename\<close> keeps the last component;
  a second argument of \<^verbatim>\<open>os.path.join\<close> that is itself absolute, and the components
  \<^verbatim>\<open>.\<close> and \<^verbatim>\<open>..\<close>, are not modelled.
  Symbolic links, hard links and other processes acting on the tree are outside the model.
  The clock is the local time that a file written now gets as its creation time.
\<close>

record finfo =
  mtime :: datetime
  ctime :: datetime
  readable :: bool
  content :: string

datatype node = File finfo | Dir "(string \<times> node) list"

type_synonym path = "string list"

record filesystem =
  tree :: node
  clock :: datetime

fun lookup :: "node \<Rightarrow> path \<Rightarrow> node option" where
  "lookup n [] = Some n"
| "lookup (File f) (x # p) = None"
| "lookup (Dir es) (x # p) = (case map_of es x of None \<Rightarrow> None | Some c \<Rightarrow> lookup c p)"


definition os_path_join :: "path \<Rightarrow> path \<Rightarrow> path" where
  "os_path_join a b = a @ b"

definition os_path_basename :: "path \<Rightarrow> path" where
  "os_path_basename p = (if p = [] then [] else [last p])"

definition os_path_isdir :: "filesystem \<Rightarrow> path \<Rightarrow> bool" where
  "os_path_isdir fs p = (case lookup (tree fs) p of Some (Dir es) \<Rightarrow> True | _ \<Rightarrow> False)"

text \<open>How a path is written inside a message.\<close>

definition path_str :: "path \<Rightarrow> string" where
  "path_str p = concat (map (\<lambda>c. CHR ''/'' # c) p)"

text \<open>
  \<^verbatim>\<open>os.makedirs(p, exist_ok=True)\<close>: every missing directory on the way is created, an
  existing directory is accepted, a file on the way is an error (and then nothing was
  created, since all components before it existed).
\<close>

fun mkdirs :: "node \<Rightarrow> path \<Rightarrow> exn + node" where
  "mkdirs (Dir es) [] = Inr (Dir es)"
| "mkdirs (File f) [] = Inl (OSError ''FileExistsError'')"
| "mkdirs (File f) (x # p) = Inl (OSError ''NotADirectoryError'')"
| "mkdirs (Dir es) (x # p) =
     (case map_of es x of
        None \<Rightarrow> (case mkdirs (Dir []) p of
                   Inl e \<Rightarrow> Inl e
                 | Inr c \<Rightarrow> Inr (Dir (es @ [(x, c)])))
      | Some c \<Rightarrow> (case mkdirs c p of
                     Inl e \<Rightarrow> Inl e
                   | Inr c' \<Rightarrow> Inr (Dir (AList.update x c' es))))"

definition os_makedirs :: "filesystem \<Rightarrow> path \<Rightarrow> exn + filesystem" where
  "os_makedirs fs p =
     (case mkdirs (tree fs) p of Inl e \<Rightarrow> Inl e | Inr t \<Rightarrow> Inr (fs\<lparr>tree := t\<rparr>))"

text \<open>
  \<^verbatim>\<open>os.walk(top)\<close>, top down: the directory itself with the names of its subdirectories
  and of its other entries, then each subdirectory in turn. A top that is no directory
  yields nothing.
\<close>

fun walk :: "path \<Rightarrow> node \<Rightarrow> (path \<times> string list \<times> string list) list" where
  "walk root (File f) = []"
| "walk root (Dir es) =
     (root,
      map fst (filter (\<lambda>e. case snd e of Dir ds \<Rightarrow> True | File f \<Rightarrow> False) es),
      map fst (filter (\<lambda>e. case snd e of Dir ds \<Rightarrow> False | File f \<Rightarrow> True) es))
     # concat (map (\<lambda>e. walk (root @ [fst e]) (snd e)) es)"

definition os_walk :: "filesystem \<Rightarrow> path \<Rightarrow> (path \<times> string list \<times> string list) list" where
  "os_walk fs top_path =
     (case lookup (tree fs) top_path of Some (Dir es) \<Rightarrow> walk top_path (Dir es) | _ \<Rightarrow> [])"

text \<open>
  \<^verbatim>\<open>datetime.fromtimestamp(os.path.getmtime(p))\<close> and the same with \<^verbatim>\<open>getctime\<close>. The
  program asks only for entries that the walk listed as files; directories carry no
  times here.
\<close>

definition os_path_getmtime :: "filesystem \<Rightarrow> path \<Rightarrow> exn + datetime" where
  "os_path_getmtime fs p =
     (case lookup (tree fs) p of
        Some (File f) \<Rightarrow> Inr (mtime f)
      | _ \<Rightarrow> Inl (OSError ''FileNotFoundError''))"

definition os_path_getctime :: "filesystem \<Rightarrow> path \<Rightarrow> exn + datetime" where
  "os_path_getctime fs p =
     (case lookup (tree fs) p of
        Some (File f) \<Rightarrow> Inr (ctime f)
      | _ \<Rightarrow> Inl (OSError ''FileNotFoundError''))"

text \<open>
  Opening a path for writing and storing a file there: an existing file is replaced, a
  new entry is added to an existing directory, anything else is an error.
\<close>

fun write_file :: "node \<Rightarrow> path \<Rightarrow> finfo \<Rightarrow> exn + node" where
  "write_file (File g) [] f = Inr (File f)"
| "write_file (Dir es) [] f = Inl (OSError ''IsADirectoryError'')"
| "write_file (File g) (x # p) f = Inl (OSError ''NotADirectoryError'')"
| "write_file (Dir es) (x # p) f =
     (case map_of es x of
        None \<Rightarrow> (if p = [] then Inr (Dir (es @ [(x, File f)]))
                 else Inl (OSError ''FileNotFoundError''))
      | Some c \<Rightarrow> (case write_file c p f of
                     Inl e \<Rightarrow> Inl e
                   | Inr c' \<Rightarrow> Inr (Dir (AList.update x c' es))))"

text \<open>
  \<^verbatim>\<open>shutil.copy2(src, dst)\<close>: a destination that is a directory stands for the entry of
  the source's base name inside it; copying a file onto itself, a source that is missing,
  a directory or unreadable, and a destination that cannot be written are errors, which
  leave the tree as it was. The copy keeps the content, the modification time and the
  permission of the source.
\<close>

definition shutil_copy2 :: "filesystem \<Rightarrow> path \<Rightarrow> path \<Rightarrow> exn + filesystem" where
  "shutil_copy2 fs src dst =
     (let dst' = (if os_path_isdir fs dst then os_path_join dst (os_path_basename src)
                  else dst)
      in if src = dst' \<and> lookup (tree fs) src \<noteq> None then Inl (OSError ''SameFileError'')
         else (case lookup (tree fs) src of
                 None \<Rightarrow> Inl (OSError ''FileNotFoundError'')
               | Some (Dir es) \<Rightarrow> Inl (OSError ''IsADirectoryError'')
               | Some (File f) \<Rightarrow>
                   if \<not> readable f then Inl (OSError ''PermissionError'')
                   else (case write_file (tree fs) dst' (f\<lparr>ctime := clock fs\<rparr>) of
                           Inl e \<Rightarrow> Inl e
                         | Inr t \<Rightarrow> Inr (fs\<lparr>tree := t\<rparr>))))"

section \<open>The program\<close>

subsection \<open>\<^verbatim>\<open>filter_files\<close>\<close>

text \<open>The two calls of \<^verbatim>\<open>strptime\<close> inside the \<^verbatim>\<open>try\<close>.\<close>

definition parse_range :: "string \<Rightarrow> string \<Rightarrow> exn + (datetime \<times> datetime)" where
  "parse_range from_timestamp to_timestamp =
     (case strptime from_timestamp of
        Inl e \<Rightarrow> Inl e
      | Inr from_dt \<Rightarrow>
          (case strptime to_timestamp of
             Inl e \<Rightarrow> Inl e
           | Inr to_dt \<Rightarrow> Inr (from_dt, to_dt)))"

fun is_ValueError :: "exn \<Rightarrow> bool" where
  "is_ValueError (ValueError m) = True"
| "is_ValueError e = False"

text \<open>The comprehension that normalises the formats.\<close>

definition normalize_formats :: "string \<Rightarrow> string list" where
  "normalize_formats file_formats =
     map (\<lambda>fmt. lstrip_dot (lower (strip fmt)))
       (filter (\<lambda>fmt. strip fmt \<noteq> []) (split_on CHR '','' file_formats))"

text \<open>\<^verbatim>\<open>filename.split(".")[-1].lower()\<close>\<close>

definition extension :: "string \<Rightarrow> string" where
  "extension filename = lower (last (split_on CHR ''.'' filename))"

definition file_time :: "filesystem \<Rightarrow> bool \<Rightarrow> path \<Rightarrow> exn + datetime" where
  "file_time fs use_created_time file_path =
     (if use_created_time then os_path_getctime fs file_path
      else os_path_getmtime fs file_path)"

text \<open>The inner loop, over the files of one directory.\<close>

fun scan_files ::
  "filesystem \<Rightarrow> datetime \<Rightarrow> datetime \<Rightarrow> string list \<Rightarrow> bool \<Rightarrow> path \<Rightarrow> string list
     \<Rightarrow> path list \<Rightarrow> exn + path list" where
  "scan_files fs from_dt to_dt formats use_created_time root [] matching_files =
     Inr matching_files"
| "scan_files fs from_dt to_dt formats use_created_time root (filename # files) matching_files =
     (if extension filename \<in> set formats then
        (let file_path = os_path_join root [filename] in
         case file_time fs use_created_time file_path of
           Inl e \<Rightarrow> Inl e
         | Inr t \<Rightarrow>
             if dt_le from_dt t \<and> dt_le t to_dt
             then scan_files fs from_dt to_dt formats use_created_time root files
                    (matching_files @ [file_path])
             else scan_files fs from_dt to_dt formats use_created_time root files
                    matching_files)
      else scan_files fs from_dt to_dt formats use_created_time root files matching_files)"

text \<open>The outer loop, over what the walk yields.\<close>

fun scan_walk ::
  "filesystem \<Rightarrow> datetime \<Rightarrow> datetime \<Rightarrow> string list \<Rightarrow> bool
     \<Rightarrow> (path \<times> string list \<times> string list) list \<Rightarrow> path list \<Rightarrow> exn + path list" where
  "scan_walk fs from_dt to_dt formats use_created_time [] matching_files = Inr matching_files"
| "scan_walk fs from_dt to_dt formats use_created_time ((root, dirs, files) # rest)
     matching_files =
     (case scan_files fs from_dt to_dt formats use_created_time root files matching_files of
        Inl e \<Rightarrow> Inl e
      | Inr matching_files' \<Rightarrow>
          scan_walk fs from_dt to_dt formats use_created_time rest matching_files')"

definition invalid_timestamp_detail :: string where
  "invalid_timestamp_detail =
     ''Invalid timestamp format. Use '' @ [CHR 0x27] @ ''YYYY-MM-DD HH:MM:SS'' @ [CHR 0x27]"

definition filter_files ::
  "filesystem \<Rightarrow> path \<Rightarrow> string \<Rightarrow> string \<Rightarrow> string \<Rightarrow> bool \<Rightarrow> exn + path list" where
  "filter_files fs folder_path from_timestamp to_timestamp file_formats use_created_time =
     (case parse_range from_timestamp to_timestamp of
        Inl e \<Rightarrow>
          if is_ValueError e then Inl (HTTPException 400 invalid_timestamp_detail)
          else Inl e
      | Inr (from_dt, to_dt) \<Rightarrow>
          (let formats = normalize_formats file_formats
           in if formats = [] then Inl (HTTPException 400 ''No valid file formats provided'')
              else scan_walk fs from_dt to_dt formats use_created_time
                     (os_walk fs folder_path) []))"

subsection \<open>\<^verbatim>\<open>filter_and_copy\<close>\<close>

text \<open>The fields of the form; the three folders are given as paths.\<close>

record FilterRequest =
  source_folder :: path
  from_timestamp :: string
  to_timestamp :: string
  file_formats :: string
  use_created_time :: bool
  dest_folder_base :: path
  dest_folder_name :: path

record response =
  status :: string
  count :: int
  destination_folder :: path
  copied_files :: "path list"
  skipped_files :: int

text \<open>
  The copy loop: a copy that raises is passed over, a copy that succeeds adds the
  destination path to \<^verbatim>\<open>copied_files\<close>.
\<close>

fun copy_loop :: "filesystem \<Rightarrow> path \<Rightarrow> path list \<Rightarrow> path list \<Rightarrow> filesystem \<times> path list" where
  "copy_loop fs dest_folder [] copied = (fs, copied)"
| "copy_loop fs dest_folder (src # rest) copied =
     (let filename = os_path_basename src;
          dest_path = os_path_join dest_folder filename
      in case shutil_copy2 fs src dest_path of
           Inl e \<Rightarrow> copy_loop fs dest_folder rest copied
         | Inr fs' \<Rightarrow> copy_loop fs' dest_folder rest (copied @ [dest_path]))"

text \<open>
  The request handler. It returns the filesystem it leaves behind together with either
  the exception it raises or the response. An exception that is no \<^verbatim>\<open>HTTPException\<close>
  leaves the handler as it is.
\<close>

definition filter_and_copy :: "filesystem \<Rightarrow> FilterRequest \<Rightarrow> filesystem \<times> (exn + response)" where
  "filter_and_copy fs req =
     (if \<not> os_path_isdir fs (source_folder req) then
        (fs, Inl (HTTPException 400
           (''Source folder does not exist or is not a directory: ''
              @ path_str (source_folder req))))
      else if \<not> os_path_isdir fs (dest_folder_base req) then
        (fs, Inl (HTTPException 400
           (''Destination base folder does not exist: '' @ path_str (dest_folder_base req))))
      else
        (let dest_folder = os_path_join (dest_folder_base req) (dest_folder_name req)
         in case os_makedirs fs dest_folder of
              Inl e \<Rightarrow> (fs, Inl e)
            | Inr fs1 \<Rightarrow>
                (case filter_files fs1 (source_folder req) (from_timestamp req)
                        (to_timestamp req) (file_formats req) (use_created_time req) of
                   Inl e \<Rightarrow> (fs1, Inl (HTTPException 400 (str_exn e)))
                 | Inr matching_files \<Rightarrow>
                     (let (fs2, copied) = copy_loop fs1 dest_folder matching_files []
                      in (fs2, Inr \<lparr>status = ''success'',
                                    count = int (length copied),
                                    destination_folder = dest_folder,
                                    copied_files = copied,
                                    skipped_files =
                                      int (length matching_files) - int (length copied)\<rparr>)))))"

text \<open>
  What each turn of the copy loop did, in order: the source and whether its copy
  succeeded. It follows the filesystem through the loop exactly as \<open>copy_loop\<close> does.
\<close>

fun copy_attempts :: "filesystem \<Rightarrow> path \<Rightarrow> path list \<Rightarrow> (path \<times> bool) list" where
  "copy_attempts fs dest_folder [] = []"
| "copy_attempts fs dest_folder (src # rest) =
     (case shutil_copy2 fs src (os_path_join dest_folder (os_path_basename src)) of
        Inl e \<Rightarrow> (src, False) # copy_attempts fs dest_folder rest
      | Inr fs' \<Rightarrow> (src, True) # copy_attempts fs' dest_folder rest)"

section \<open>A small filesystem and a request\<close>

definition ex_time :: datetime where
  "ex_time = \<lparr>year = 2024, month = 1, day = 1, hour = 10, minute = 0, second = 0,
               microsecond = 0\<rparr>"

definition ex_file :: finfo where
  "ex_file = \<lparr>mtime = ex_time, ctime = ex_time, readable = True, content = ''first''\<rparr>"

definition ex_locked :: finfo where
  "ex_locked = \<lparr>mtime = ex_time, ctime = ex_time, readable = False, content = ''secret''\<rparr>"

definition ex_other :: finfo where
  "ex_other = \<lparr>mtime = ex_time, ctime = ex_time, readable = True, content = ''second''\<rparr>"

definition ex_fs :: filesystem where
  "ex_fs =
     \<lparr>tree = Dir [(''src'', Dir [(''a.txt'', File ex_file), (''b.log'', File ex_file),
                               (''txt'', File ex_file), (''locked.txt'', File ex_locked),
                               (''sub'', Dir [(''a.txt'', File ex_other)])]),
                 (''out'', Dir [])],
      clock = \<lparr>year = 2024, month = 6, day = 1, hour = 0, minute = 0, second = 0,
                microsecond = 0\<rparr>\<rparr>"

definition ex_req :: FilterRequest where
  "ex_req =
     \<lparr>source_folder = [''src''], from_timestamp = ''2024-01-01 00:00:00'',
      to_timestamp = ''2024-01-01 10:00:00'', file_formats = ''txt'',
      use_created_time = False, dest_folder_base = [''out''],
      dest_folder_name = [''run'', ''one'']\<rparr>"

text \<open>The example filesystem once the destination folder of the example request exists.\<close>

definition ex_fs_made :: filesystem where
  "ex_fs_made =
     \<lparr>tree = Dir [(''src'', Dir [(''a.txt'', File ex_file), (''b.log'', File ex_file),
                               (''txt'', File ex_file), (''locked.txt'', File ex_locked),
                               (''sub'', Dir [(''a.txt'', File ex_other)])]),
                 (''out'', Dir [(''run'', Dir [(''one'', Dir [])])])],
      clock = \<lparr>year = 2024, month = 6, day = 1, hour = 0, minute = 0, second = 0,
                microsecond = 0\<rparr>\<rparr>"

text \<open>What the example request matches, and how the copy of each match ends.\<close>

definition ex_matching :: "path list" where
  "ex_matching = [[''src'', ''a.txt''], [''src'', ''txt''], [''src'', ''locked.txt''],
                  [''src'', ''sub'', ''a.txt'']]"

definition ex_attempts :: "(path \<times> bool) list" where
  "ex_attempts = [([''src'', ''a.txt''], True), ([''src'', ''txt''], True),
                  ([''src'', ''locked.txt''], False), ([''src'', ''sub'', ''a.txt''], True)]"

section \<open>Properties of the string functions\<close>

lemma split_on_nonempty: "split_on c s \<noteq> []"
  by (induction s) (auto split: list.splits)

lemma split_on_no_sep: "c \<notin> set s \<Longrightarrow> split_on c s = [s]"
  by (induction s) auto



lemma strptime_error: "strptime s = Inl e \<Longrightarrow> is_ValueError e"
  unfolding strptime_def by (auto split: list.splits prod.splits if_splits)









section \<open>Properties of the walk and of the filter loops\<close>







lemma scan_files_Inr:
  "scan_files fs f t fm u root files acc = Inr ms \<Longrightarrow>
   ms = acc @ map (\<lambda>x. root @ [x])
     (filter (\<lambda>x. extension x \<in> set fm
        \<and> (\<exists>ft. file_time fs u (root @ [x]) = Inr ft \<and> dt_le f ft \<and> dt_le ft t)) files)"
proof (induction files arbitrary: acc)
  case Nil
  then show ?case by simp
next
  case (Cons x xs)
  show ?case
  proof (cases "extension x \<in> set fm")
    case False
    then show ?thesis using Cons by simp
  next
    case True
    show ?thesis
    proof (cases "file_time fs u (root @ [x])")
      case (Inl e)
      then show ?thesis using Cons.prems True by (simp add: os_path_join_def)
    next
      case (Inr ft)
      show ?thesis
      proof (cases "dt_le f ft \<and> dt_le ft t")
        case yes: True
        have "scan_files fs f t fm u root xs (acc @ [root @ [x]]) = Inr ms"
          using Cons.prems True Inr yes by (simp add: os_path_join_def)
        from Cons.IH[OF this] show ?thesis using True Inr yes by simp
      next
        case no: False
        have "scan_files fs f t fm u root xs acc = Inr ms"
          using Cons.prems True Inr no by (auto simp: os_path_join_def)
        from Cons.IH[OF this] show ?thesis using True Inr no by auto
      qed
    qed
  qed
qed


lemma scan_walk_Inr:
  "scan_walk fs f t fm u ws acc = Inr ms \<Longrightarrow>
   ms = acc @ concat (map (\<lambda>w. map (\<lambda>x. fst w @ [x])
     (filter (\<lambda>x. extension x \<in> set fm
        \<and> (\<exists>ft. file_time fs u (fst w @ [x]) = Inr ft \<and> dt_le f ft \<and> dt_le ft t))
        (snd (snd w)))) ws)"
proof (induction ws arbitrary: acc)
  case Nil
  then show ?case by simp
next
  case (Cons w ws)
  obtain root dirs files where w: "w = (root, dirs, files)" by (cases w) auto
  from Cons.prems w obtain m1 where
    m1: "scan_files fs f t fm u root files acc = Inr m1"
    and rest: "scan_walk fs f t fm u ws m1 = Inr ms"
    by (auto split: sum.splits)
  show ?case using scan_files_Inr[OF m1] Cons.IH[OF rest] w by simp
qed



section \<open>Properties of \<^verbatim>\<open>filter_files\<close>\<close>

lemma dt_le_refl: "dt_le a a"
  by (simp add: dt_le_def)



lemma filter_files_Inr:
  assumes "filter_files fs folder fts tts ff u = Inr ms"
  shows "\<exists>f t. strptime fts = Inr f \<and> strptime tts = Inr t \<and> normalize_formats ff \<noteq> []
    \<and> scan_walk fs f t (normalize_formats ff) u (os_walk fs folder) [] = Inr ms"
  using assms unfolding filter_files_def parse_range_def Let_def
  by (auto split: sum.splits if_splits)


lemma filter_files_set:
  assumes "filter_files fs folder fts tts ff u = Inr ms"
      and "strptime fts = Inr f" "strptime tts = Inr t"
  shows "set ms = {root @ [x] | root dirs files x.
           (root, dirs, files) \<in> set (os_walk fs folder) \<and> x \<in> set files
           \<and> extension x \<in> set (normalize_formats ff)
           \<and> (\<exists>ft. file_time fs u (root @ [x]) = Inr ft \<and> dt_le f ft \<and> dt_le ft t)}"
proof -
  from filter_files_Inr[OF assms(1)] assms(2,3)
  have "scan_walk fs f t (normalize_formats ff) u (os_walk fs folder) [] = Inr ms" by auto
  from scan_walk_Inr[OF this] show ?thesis by (auto; force)
qed

text \<open>
  Claim C1. Of the files that the walk of the source folder lists and whose extension is
  among the formats, exactly those are matched whose time lies between the two parsed
  timestamps, both ends included; a file whose time is the upper end itself is matched.
\<close>

theorem filter_files_time_window:
  assumes "filter_files fs folder_path from_ts to_ts formats uct = Inr matching_files"
      and "strptime from_ts = Inr from_dt" and "strptime to_ts = Inr to_dt"
      and "(root, dirs, files) \<in> set (os_walk fs folder_path)" and "filename \<in> set files"
      and "extension filename \<in> set (normalize_formats formats)"
  shows "(os_path_join root [filename] \<in> set matching_files
            \<longleftrightarrow> (\<exists>ft. file_time fs uct (os_path_join root [filename]) = Inr ft
                      \<and> dt_le from_dt ft \<and> dt_le ft to_dt))
         \<and> (file_time fs uct (os_path_join root [filename]) = Inr to_dt \<and> dt_le from_dt to_dt
              \<longrightarrow> os_path_join root [filename] \<in> set matching_files)"
proof -
  let ?p = "root @ [filename]"
  have iff: "?p \<in> set matching_files
            \<longleftrightarrow> (\<exists>ft. file_time fs uct ?p = Inr ft \<and> dt_le from_dt ft \<and> dt_le ft to_dt)"
  proof
    assume "?p \<in> set matching_files"
    then show "\<exists>ft. file_time fs uct ?p = Inr ft \<and> dt_le from_dt ft \<and> dt_le ft to_dt"
      unfolding filter_files_set[OF assms(1,2,3)] by auto
  next
    assume "\<exists>ft. file_time fs uct ?p = Inr ft \<and> dt_le from_dt ft \<and> dt_le ft to_dt"
    then show "?p \<in> set matching_files"
      unfolding filter_files_set[OF assms(1,2,3)] using assms(4,5,6) by blast
  qed
  then show ?thesis by (auto simp: os_path_join_def dt_le_refl)
qed

theorem filter_files_time_window_witness:
  "filter_files ex_fs [''src''] ''2024-01-01 00:00:00'' ''2024-01-01 10:00:00'' ''txt'' False
     = Inr [[''src'', ''a.txt''], [''src'', ''txt''], [''src'', ''locked.txt''],
             [''src'', ''sub'', ''a.txt'']]
   \<and> file_time ex_fs False (os_path_join [''src''] [''a.txt'']) = Inr ex_time
   \<and> strptime ''2024-01-01 10:00:00'' = Inr ex_time
   \<and> os_path_join [''src''] [''a.txt'']
        \<in> set [[''src'', ''a.txt''], [''src'', ''txt''], [''src'', ''locked.txt''],
             [''src'', ''sub'', ''a.txt'']]"
proof -
  let ?from = "\<lparr>year = 2024, month = 1, day = 1, hour = 0, minute = 0, second = 0,
                 microsecond = 0\<rparr>"
  have a: "filter_files ex_fs [''src''] ''2024-01-01 00:00:00'' ''2024-01-01 10:00:00''
             ''txt'' False
           = Inr [[''src'', ''a.txt''], [''src'', ''txt''], [''src'', ''locked.txt''],
             [''src'', ''sub'', ''a.txt'']]"
    by code_simp
  have b: "strptime ''2024-01-01 00:00:00'' = Inr ?from"
    by code_simp
  have c: "strptime ''2024-01-01 10:00:00'' = Inr ex_time"
    by code_simp
  have d: "([''src''], [''sub''], [''a.txt'', ''b.log'', ''txt'', ''locked.txt''])
             \<in> set (os_walk ex_fs [''src''])"
    by code_simp
  have e: "''a.txt'' \<in> set [''a.txt'', ''b.log'', ''txt'', ''locked.txt'']"
    by simp
  have f: "extension ''a.txt'' \<in> set (normalize_formats ''txt'')"
    by code_simp
  have g: "file_time ex_fs False (os_path_join [''src''] [''a.txt'']) = Inr ex_time"
    by code_simp
  have h: "dt_le ?from ex_time"
    by code_simp
  from filter_files_time_window[OF a b c d e f]
  have "file_time ex_fs False (os_path_join [''src''] [''a.txt'']) = Inr ex_time
          \<and> dt_le ?from ex_time
        \<longrightarrow> os_path_join [''src''] [''a.txt'']
              \<in> set [[''src'', ''a.txt''], [''src'', ''txt''], [''src'', ''locked.txt''],
             [''src'', ''sub'', ''a.txt'']]"
    by (rule conjunct2)
  from this[rule_format, OF conjI[OF g h]] a g c show ?thesis
    by (intro conjI)
qed



section \<open>Validation errors\<close>

lemma show_nat_400: "show_nat 400 = ''400''"
  by code_simp

lemma filter_and_copy_filter_error:
  assumes "os_path_isdir fs (source_folder req)" and "os_path_isdir fs (dest_folder_base req)"
      and "os_makedirs fs (os_path_join (dest_folder_base req) (dest_folder_name req)) = Inr fs1"
      and "filter_files fs1 (source_folder req) (from_timestamp req) (to_timestamp req)
             (file_formats req) (use_created_time req) = Inl e"
  shows "filter_and_copy fs req = (fs1, Inl (HTTPException 400 (str_exn e)))"
  using assms by (simp add: filter_and_copy_def Let_def)

lemma parse_range_error:
  "strptime a = Inl e \<or> strptime b = Inl e \<Longrightarrow> \<exists>e'. parse_range a b = Inl e' \<and> is_ValueError e'"
  unfolding parse_range_def by (auto split: sum.splits dest: strptime_error)

lemma filter_files_bad_timestamp:
  "strptime a = Inl e \<or> strptime b = Inl e \<Longrightarrow>
     filter_files fs folder a b ff u = Inl (HTTPException 400 invalid_timestamp_detail)"
  using parse_range_error[of a e b] unfolding filter_files_def by auto

text \<open>
  Claim C8. A timestamp that does not parse, in either position, makes filter_files raise
  the HTTP exception 400 whose detail names the invalid timestamp format; the request
  handler passes it on as a 400 whose detail is the text of that exception.
\<close>

theorem invalid_timestamp_is_http_400:
  assumes "strptime (from_timestamp req) = Inl e \<or> strptime (to_timestamp req) = Inl e"
  shows "filter_files fs' (source_folder req) (from_timestamp req) (to_timestamp req)
           (file_formats req) (use_created_time req)
         = Inl (HTTPException 400 invalid_timestamp_detail)
       \<and> prefix ''Invalid timestamp format'' invalid_timestamp_detail
       \<and> (os_path_isdir fs (source_folder req) \<and> os_path_isdir fs (dest_folder_base req)
            \<and> os_makedirs fs (os_path_join (dest_folder_base req) (dest_folder_name req))
                = Inr fs1
          \<longrightarrow> snd (filter_and_copy fs req)
                = Inl (HTTPException 400 (''400: '' @ invalid_timestamp_detail)))"
proof (intro conjI impI)
  show "filter_files fs' (source_folder req) (from_timestamp req) (to_timestamp req)
           (file_formats req) (use_created_time req)
         = Inl (HTTPException 400 invalid_timestamp_detail)"
    using assms by (rule filter_files_bad_timestamp)
  show "prefix ''Invalid timestamp format'' invalid_timestamp_detail"
    by (simp add: invalid_timestamp_detail_def)
  assume h: "os_path_isdir fs (source_folder req) \<and> os_path_isdir fs (dest_folder_base req)
            \<and> os_makedirs fs (os_path_join (dest_folder_base req) (dest_folder_name req))
                = Inr fs1"
  have "filter_files fs1 (source_folder req) (from_timestamp req) (to_timestamp req)
           (file_formats req) (use_created_time req)
         = Inl (HTTPException 400 invalid_timestamp_detail)"
    using assms by (rule filter_files_bad_timestamp)
  with h have "filter_and_copy fs req
      = (fs1, Inl (HTTPException 400 (str_exn (HTTPException 400 invalid_timestamp_detail))))"
    using filter_and_copy_filter_error by blast
  then show "snd (filter_and_copy fs req)
                = Inl (HTTPException 400 (''400: '' @ invalid_timestamp_detail))"
    by (simp add: show_nat_400)
qed

theorem invalid_timestamp_witness:
  "strptime ''2024/01/01'' = Inl (ValueError ''time data does not match format'')
   \<and> snd (filter_and_copy ex_fs (ex_req\<lparr>from_timestamp := ''2024/01/01''\<rparr>))
       = Inl (HTTPException 400 (''400: '' @ invalid_timestamp_detail))"
proof -
  let ?req = "ex_req\<lparr>from_timestamp := ''2024/01/01''\<rparr>"
  have a: "strptime (from_timestamp ?req) = Inl (ValueError ''time data does not match format'')
           \<or> strptime (to_timestamp ?req) = Inl (ValueError ''time data does not match format'')"
    by code_simp
  have b: "os_path_isdir ex_fs (source_folder ?req) \<and> os_path_isdir ex_fs (dest_folder_base ?req)
            \<and> os_makedirs ex_fs (os_path_join (dest_folder_base ?req) (dest_folder_name ?req))
                = Inr ex_fs_made"
    by code_simp
  have c: "strptime ''2024/01/01'' = Inl (ValueError ''time data does not match format'')"
    by code_simp
  from invalid_timestamp_is_http_400[OF a, of ex_fs ex_fs ex_fs_made]
  have "os_path_isdir ex_fs (source_folder ?req) \<and> os_path_isdir ex_fs (dest_folder_base ?req)
            \<and> os_makedirs ex_fs (os_path_join (dest_folder_base ?req) (dest_folder_name ?req))
                = Inr ex_fs_made
          \<longrightarrow> snd (filter_and_copy ex_fs ?req)
                = Inl (HTTPException 400 (''400: '' @ invalid_timestamp_detail))"
    by (elim conjE)
  from this[rule_format, OF b] c show ?thesis
    by (intro conjI)
qed

lemma filter_files_blank_formats:
  assumes "strptime a = Inr f" "strptime b = Inr t"
      and "\<forall>fmt \<in> set (split_on CHR '','' ff). strip fmt = []"
  shows "filter_files fs folder a b ff u
           = Inl (HTTPException 400 ''No valid file formats provided'')"
proof -
  have "filter (\<lambda>fmt. strip fmt \<noteq> []) (split_on CHR '','' ff) = []"
    using assms(3) by (simp add: filter_empty_conv)
  then have "normalize_formats ff = []" by (simp add: normalize_formats_def)
  then show ?thesis using assms(1,2)
    by (simp add: filter_files_def parse_range_def)
qed

text \<open>
  Claim C5, as amended. With both timestamps well formed, a format string all of whose
  comma-separated pieces are blank after trimming (such as the empty string or a blank,
  a comma and a blank) makes filter_files raise the HTTP exception 400 "No valid file
  formats provided", which the request handler passes on as a 400.
\<close>

theorem blank_formats_is_http_400:
  assumes "strptime (from_timestamp req) = Inr from_dt"
      and "strptime (to_timestamp req) = Inr to_dt"
      and "\<forall>fmt \<in> set (split_on CHR '','' (file_formats req)). strip fmt = []"
  shows "filter_files fs' (source_folder req) (from_timestamp req) (to_timestamp req)
           (file_formats req) (use_created_time req)
         = Inl (HTTPException 400 ''No valid file formats provided'')
       \<and> (os_path_isdir fs (source_folder req) \<and> os_path_isdir fs (dest_folder_base req)
            \<and> os_makedirs fs (os_path_join (dest_folder_base req) (dest_folder_name req))
                = Inr fs1
          \<longrightarrow> snd (filter_and_copy fs req)
                = Inl (HTTPException 400 ''400: No valid file formats provided''))"
proof (intro conjI impI)
  show "filter_files fs' (source_folder req) (from_timestamp req) (to_timestamp req)
           (file_formats req) (use_created_time req)
         = Inl (HTTPException 400 ''No valid file formats provided'')"
    using assms by (rule filter_files_blank_formats)
  assume h: "os_path_isdir fs (source_folder req) \<and> os_path_isdir fs (dest_folder_base req)
            \<and> os_makedirs fs (os_path_join (dest_folder_base req) (dest_folder_name req))
                = Inr fs1"
  have "filter_files fs1 (source_folder req) (from_timestamp req) (to_timestamp req)
           (file_formats req) (use_created_time req)
         = Inl (HTTPException 400 ''No valid file formats provided'')"
    using assms by (rule filter_files_blank_formats)
  with h have "filter_and_copy fs req
      = (fs1, Inl (HTTPException 400
           (str_exn (HTTPException 400 ''No valid file formats provided''))))"
    using filter_and_copy_filter_error by blast
  then show "snd (filter_and_copy fs req)
                = Inl (HTTPException 400 ''400: No valid file formats provided'')"
    by (simp add: show_nat_400)
qed

theorem blank_formats_witness:
  "snd (filter_and_copy ex_fs (ex_req\<lparr>file_formats := '' , ''\<rparr>))
       = Inl (HTTPException 400 ''400: No valid file formats provided'')
   \<and> filter_files ex_fs [''src''] ''2024-01-01 00:00:00'' ''2024-01-01 10:00:00'' '' , '' False
       = Inl (HTTPException 400 ''No valid file formats provided'')"
proof -
  let ?req = "ex_req\<lparr>file_formats := '' , ''\<rparr>"
  let ?from = "\<lparr>year = 2024, month = 1, day = 1, hour = 0, minute = 0, second = 0,
                 microsecond = 0\<rparr>"
  have a: "strptime (from_timestamp ?req) = Inr ?from"
    by code_simp
  have b: "strptime (to_timestamp ?req) = Inr ex_time"
    by code_simp
  have c: "\<forall>fmt \<in> set (split_on CHR '','' (file_formats ?req)). strip fmt = []"
    by code_simp
  have d: "os_path_isdir ex_fs (source_folder ?req) \<and> os_path_isdir ex_fs (dest_folder_base ?req)
            \<and> os_makedirs ex_fs (os_path_join (dest_folder_base ?req) (dest_folder_name ?req))
                = Inr ex_fs_made"
    by code_simp
  note T = blank_formats_is_http_400[OF a b c, of ex_fs ex_fs ex_fs_made]
  from T have 1: "filter_files ex_fs (source_folder ?req) (from_timestamp ?req)
      (to_timestamp ?req) (file_formats ?req) (use_created_time ?req)
         = Inl (HTTPException 400 ''No valid file formats provided'')"
    by (rule conjunct1)
  from T have "os_path_isdir ex_fs (source_folder ?req) \<and> os_path_isdir ex_fs (dest_folder_base ?req)
            \<and> os_makedirs ex_fs (os_path_join (dest_folder_base ?req) (dest_folder_name ?req))
                = Inr ex_fs_made
          \<longrightarrow> snd (filter_and_copy ex_fs ?req)
                = Inl (HTTPException 400 ''400: No valid file formats provided'')"
    by (rule conjunct2)
  from this[rule_format, OF d] 1 show ?thesis
    by (simp add: ex_req_def)
qed

text \<open>
  A piece that consists of dots only survives the blank test and is normalised to the
  empty extension, so the format list is not empty and nothing is raised. And with a
  malformed timestamp an empty format list is never looked at: the error is the one of
  the timestamp.
\<close>

theorem dots_only_format_counterexample:
  "normalize_formats ''.'' = [[]]
   \<and> filter_files ex_fs [''src''] ''2024-01-01 00:00:00'' ''2024-01-01 10:00:00'' ''.'' False
       = Inr []
   \<and> normalize_formats [] = []
   \<and> filter_files ex_fs [''src''] ''2024/01/01'' ''2024-01-01 10:00:00'' [] False
       = Inl (HTTPException 400 invalid_timestamp_detail)
   \<and> snd (filter_and_copy ex_fs (ex_req\<lparr>file_formats := ''.''\<rparr>))
       = Inr \<lparr>status = ''success'', count = 0, destination_folder = [''out'', ''run'', ''one''],
              copied_files = [], skipped_files = 0\<rparr>"
  by code_simp

section \<open>Extensions\<close>

lemma extension_no_dot: "CHR ''.'' \<notin> set filename \<Longrightarrow> extension filename = lower filename"
  by (simp add: extension_def split_on_no_sep)

text \<open>
  Claim C4, as amended. For a file name without a dot the extension is the whole name in
  lower case; such a file that the walk lists is matched exactly when that lower-case
  name is one of the normalised formats and its time lies in the range.
\<close>

theorem no_dot_filename_extension:
  assumes "CHR ''.'' \<notin> set filename"
      and "filter_files fs folder_path from_ts to_ts formats uct = Inr matching_files"
      and "strptime from_ts = Inr from_dt" and "strptime to_ts = Inr to_dt"
      and "(root, dirs, files) \<in> set (os_walk fs folder_path)" and "filename \<in> set files"
  shows "extension filename = lower filename
       \<and> (os_path_join root [filename] \<in> set matching_files
            \<longleftrightarrow> lower filename \<in> set (normalize_formats formats)
                \<and> (\<exists>ft. file_time fs uct (os_path_join root [filename]) = Inr ft
                         \<and> dt_le from_dt ft \<and> dt_le ft to_dt))"
proof -
  have e: "extension filename = lower filename"
    using assms(1) by (rule extension_no_dot)
  have "root @ [filename] \<in> set matching_files
            \<longleftrightarrow> extension filename \<in> set (normalize_formats formats)
                \<and> (\<exists>ft. file_time fs uct (root @ [filename]) = Inr ft
                         \<and> dt_le from_dt ft \<and> dt_le ft to_dt)"
    unfolding filter_files_set[OF assms(2,3,4)] using assms(5,6) by auto
  then show ?thesis using e by (simp add: os_path_join_def)
qed

theorem no_dot_filename_witness:
  "CHR ''.'' \<notin> set ''txt'' \<and> extension ''txt'' = lower ''txt''
   \<and> os_path_join [''src''] [''txt'']
        \<in> set [[''src'', ''a.txt''], [''src'', ''txt''], [''src'', ''locked.txt''],
             [''src'', ''sub'', ''a.txt'']]"
proof -
  let ?from = "\<lparr>year = 2024, month = 1, day = 1, hour = 0, minute = 0, second = 0,
                 microsecond = 0\<rparr>"
  have z: "CHR ''.'' \<notin> set ''txt''"
    by simp
  have a: "filter_files ex_fs [''src''] ''2024-01-01 00:00:00'' ''2024-01-01 10:00:00''
             ''txt'' False
           = Inr [[''src'', ''a.txt''], [''src'', ''txt''], [''src'', ''locked.txt''],
             [''src'', ''sub'', ''a.txt'']]"
    by code_simp
  have b: "strptime ''2024-01-01 00:00:00'' = Inr ?from"
    by code_simp
  have c: "strptime ''2024-01-01 10:00:00'' = Inr ex_time"
    by code_simp
  have d: "([''src''], [''sub''], [''a.txt'', ''b.log'', ''txt'', ''locked.txt''])
             \<in> set (os_walk ex_fs [''src''])"
    by code_simp
  have e: "''txt'' \<in> set [''a.txt'', ''b.log'', ''txt'', ''locked.txt'']"
    by simp
  note T = no_dot_filename_extension[OF z a b c d e]
  from T have 1: "extension ''txt'' = lower ''txt''"
    by (rule conjunct1)
  have g: "lower ''txt'' \<in> set (normalize_formats ''txt'')
                \<and> (\<exists>ft. file_time ex_fs False (os_path_join [''src''] [''txt'']) = Inr ft
                         \<and> dt_le ?from ft \<and> dt_le ft ex_time)"
  proof (intro conjI exI)
    show "lower ''txt'' \<in> set (normalize_formats ''txt'')" by code_simp
    show "file_time ex_fs False (os_path_join [''src''] [''txt'']) = Inr ex_time" by code_simp
    show "dt_le ?from ex_time" by code_simp
    show "dt_le ex_time ex_time" by (rule dt_le_refl)
  qed
  from T have "os_path_join [''src''] [''txt'']
        \<in> set [[''src'', ''a.txt''], [''src'', ''txt''], [''src'', ''locked.txt''],
             [''src'', ''sub'', ''a.txt'']]
      \<longleftrightarrow> lower ''txt'' \<in> set (normalize_formats ''txt'')
                \<and> (\<exists>ft. file_time ex_fs False (os_path_join [''src''] [''txt'']) = Inr ft
                         \<and> dt_le ?from ft \<and> dt_le ft ex_time)"
    by (rule conjunct2)
  from iffD2[OF this g] z 1 show ?thesis
    by (intro conjI)
qed

text \<open>
  A file called \<^verbatim>\<open>txt\<close> is matched by the format \<^verbatim>\<open>txt\<close>, and the extension of
  \<^verbatim>\<open>README\<close> is not the name itself.
\<close>

theorem no_dot_filename_counterexample:
  "CHR ''.'' \<notin> set ''txt''
   \<and> [''src'', ''txt'']
       \<in> set (projr (filter_files ex_fs [''src''] ''2024-01-01 00:00:00''
                        ''2024-01-01 10:00:00'' ''txt'' False))
   \<and> CHR ''.'' \<notin> set ''README'' \<and> extension ''README'' = ''readme''
   \<and> extension ''README'' \<noteq> ''README''"
  by code_simp










section \<open>The copy loop\<close>

lemma copy_attempts_sources: "map fst (copy_attempts fs dest srcs) = srcs"
  by (induction srcs arbitrary: fs) (auto split: sum.splits)

lemma copy_loop_copied:
  "copy_loop fs dest srcs acc = (fs', copied) \<Longrightarrow>
     copied = acc @ map (\<lambda>a. os_path_join dest (os_path_basename (fst a)))
                      (filter snd (copy_attempts fs dest srcs))"
proof (induction srcs arbitrary: fs acc)
  case Nil
  then show ?case by simp
next
  case (Cons s srcs)
  show ?case
  proof (cases "shutil_copy2 fs s (os_path_join dest (os_path_basename s))")
    case (Inl e)
    then have "copy_loop fs dest srcs acc = (fs', copied)"
      using Cons.prems by (simp add: Let_def)
    from Cons.IH[OF this] show ?thesis using Inl by simp
  next
    case (Inr fs1)
    then have "copy_loop fs1 dest srcs (acc @ [os_path_join dest (os_path_basename s)])
                 = (fs', copied)"
      using Cons.prems by (simp add: Let_def)
    from Cons.IH[OF this] show ?thesis using Inr by simp
  qed
qed

lemma copy_loop_append:
  "copy_loop fs dest (xs @ ys) acc
     = copy_loop (fst (copy_loop fs dest xs acc)) dest ys (snd (copy_loop fs dest xs acc))"
  by (induction xs arbitrary: fs acc) (auto simp: Let_def split: sum.splits)

lemma copy_loop_skip_failed:
  assumes "shutil_copy2 (fst (copy_loop fs dest xs acc)) s
             (os_path_join dest (os_path_basename s)) = Inl e"
  shows "copy_loop fs dest (xs @ s # ys) acc = copy_loop fs dest (xs @ ys) acc"
  using assms by (simp add: copy_loop_append Let_def)

lemma filter_split_length:
  "length (filter P xs) + length (filter (\<lambda>x. \<not> P x) xs) = length xs"
  by (induction xs) auto

lemma filter_and_copy_success:
  assumes "os_path_isdir fs (source_folder req)" and "os_path_isdir fs (dest_folder_base req)"
      and "os_makedirs fs (os_path_join (dest_folder_base req) (dest_folder_name req)) = Inr fs1"
      and "filter_files fs1 (source_folder req) (from_timestamp req) (to_timestamp req)
             (file_formats req) (use_created_time req) = Inr matching_files"
  shows "filter_and_copy fs req =
     (fst (copy_loop fs1 (os_path_join (dest_folder_base req) (dest_folder_name req))
             matching_files []),
      Inr \<lparr>status = ''success'',
           count = int (length (snd (copy_loop fs1
             (os_path_join (dest_folder_base req) (dest_folder_name req)) matching_files []))),
           destination_folder = os_path_join (dest_folder_base req) (dest_folder_name req),
           copied_files = snd (copy_loop fs1
             (os_path_join (dest_folder_base req) (dest_folder_name req)) matching_files []),
           skipped_files = int (length matching_files) - int (length (snd (copy_loop fs1
             (os_path_join (dest_folder_base req) (dest_folder_name req)) matching_files [])))\<rparr>)"
  using assms by (simp add: filter_and_copy_def Let_def split: prod.splits)

lemma copy_loop_copied_snd:
  "snd (copy_loop fs dest srcs []) = map (\<lambda>a. os_path_join dest (os_path_basename (fst a)))
                      (filter snd (copy_attempts fs dest srcs))"
  using copy_loop_copied[of fs dest srcs "[]"] by (cases "copy_loop fs dest srcs []") simp

text \<open>
  Claim C2. Once validation, folder creation and filtering have succeeded, the handler
  always answers with a response, whatever the copies do: every matched file is attempted
  in turn, \<open>copied_files\<close> holds the destination paths of exactly the attempts that
  succeeded, \<open>skipped_files\<close> is the number of attempts that failed, the two counts add
  up to the number of matched files, and a file whose copy fails leaves the loop where it
  would be had the file not been matched.
\<close>

theorem copy_failures_are_skipped:
  assumes "os_path_isdir fs (source_folder req)" and "os_path_isdir fs (dest_folder_base req)"
      and "os_makedirs fs (os_path_join (dest_folder_base req) (dest_folder_name req)) = Inr fs1"
      and "filter_files fs1 (source_folder req) (from_timestamp req) (to_timestamp req)
             (file_formats req) (use_created_time req) = Inr matching_files"
      and "dest_folder = os_path_join (dest_folder_base req) (dest_folder_name req)"
      and "attempts = copy_attempts fs1 dest_folder matching_files"
  shows "snd (filter_and_copy fs req) =
           Inr \<lparr>status = ''success'',
                count = int (length (filter snd attempts)),
                destination_folder = dest_folder,
                copied_files = map (\<lambda>a. os_path_join dest_folder (os_path_basename (fst a)))
                                 (filter snd attempts),
                skipped_files = int (length (filter (\<lambda>a. \<not> snd a) attempts))\<rparr>
       \<and> map fst attempts = matching_files
       \<and> int (length (filter snd attempts)) + int (length (filter (\<lambda>a. \<not> snd a) attempts))
           = int (length matching_files)
       \<and> (\<forall>xs s ys e. shutil_copy2 (fst (copy_loop fs1 dest_folder xs [])) s
                          (os_path_join dest_folder (os_path_basename s)) = Inl e
            \<longrightarrow> copy_loop fs1 dest_folder (xs @ s # ys) []
                  = copy_loop fs1 dest_folder (xs @ ys) [])"
proof (intro conjI allI impI)
  have len: "length attempts = length matching_files"
    using copy_attempts_sources[of fs1 dest_folder matching_files] assms(6)
    by (metis length_map)
  have split: "length (filter snd attempts) + length (filter (\<lambda>a. \<not> snd a) attempts)
                 = length matching_files"
    using filter_split_length[of snd attempts] len by simp
  show "map fst attempts = matching_files"
    using assms(6) by (simp add: copy_attempts_sources)
  show "int (length (filter snd attempts)) + int (length (filter (\<lambda>a. \<not> snd a) attempts))
           = int (length matching_files)"
    using split by linarith
  have sk: "int (length matching_files) - int (length (filter snd attempts))
              = int (length (filter (\<lambda>a. \<not> snd a) attempts))"
    using split by linarith
  show "snd (filter_and_copy fs req) =
           Inr \<lparr>status = ''success'',
                count = int (length (filter snd attempts)),
                destination_folder = dest_folder,
                copied_files = map (\<lambda>a. os_path_join dest_folder (os_path_basename (fst a)))
                                 (filter snd attempts),
                skipped_files = int (length (filter (\<lambda>a. \<not> snd a) attempts))\<rparr>"
    unfolding filter_and_copy_success[OF assms(1,2,3,4)]
    using sk assms(5,6) by (simp add: copy_loop_copied_snd)
next
  fix xs s ys e
  assume "shutil_copy2 (fst (copy_loop fs1 dest_folder xs [])) s
                          (os_path_join dest_folder (os_path_basename s)) = Inl e"
  then show "copy_loop fs1 dest_folder (xs @ s # ys) [] = copy_loop fs1 dest_folder (xs @ ys) []"
    by (rule copy_loop_skip_failed)
qed

theorem copy_failures_witness:
  "snd (filter_and_copy ex_fs ex_req)
     = Inr \<lparr>status = ''success'', count = 3,
            destination_folder = [''out'', ''run'', ''one''],
            copied_files = [[''out'', ''run'', ''one'', ''a.txt''],
                            [''out'', ''run'', ''one'', ''txt''],
                            [''out'', ''run'', ''one'', ''a.txt'']],
            skipped_files = 1\<rparr>
   \<and> shutil_copy2 (fst (copy_loop ex_fs_made [''out'', ''run'', ''one'']
          [[''src'', ''a.txt''], [''src'', ''txt'']] [])) [''src'', ''locked.txt'']
          (os_path_join [''out'', ''run'', ''one''] (os_path_basename [''src'', ''locked.txt'']))
       = Inl (OSError ''PermissionError'')
   \<and> copy_loop ex_fs_made [''out'', ''run'', ''one'']
         ([[''src'', ''a.txt''], [''src'', ''txt'']] @ [''src'', ''locked.txt'']
            # [[''src'', ''sub'', ''a.txt'']]) []
       = copy_loop ex_fs_made [''out'', ''run'', ''one'']
           ([[''src'', ''a.txt''], [''src'', ''txt'']] @ [[''src'', ''sub'', ''a.txt'']]) []"
proof -
  have h1: "os_path_isdir ex_fs (source_folder ex_req)"
    by code_simp
  have h2: "os_path_isdir ex_fs (dest_folder_base ex_req)"
    by code_simp
  have h3: "os_makedirs ex_fs (os_path_join (dest_folder_base ex_req) (dest_folder_name ex_req))
              = Inr ex_fs_made"
    by code_simp
  have h4: "filter_files ex_fs_made (source_folder ex_req) (from_timestamp ex_req)
              (to_timestamp ex_req) (file_formats ex_req) (use_created_time ex_req)
            = Inr ex_matching"
    by code_simp
  have h5: "[''out'', ''run'', ''one'']
              = os_path_join (dest_folder_base ex_req) (dest_folder_name ex_req)"
    by code_simp
  have h6: "ex_attempts = copy_attempts ex_fs_made [''out'', ''run'', ''one''] ex_matching"
    by code_simp
  have h7: "shutil_copy2 (fst (copy_loop ex_fs_made [''out'', ''run'', ''one'']
          [[''src'', ''a.txt''], [''src'', ''txt'']] [])) [''src'', ''locked.txt'']
          (os_path_join [''out'', ''run'', ''one''] (os_path_basename [''src'', ''locked.txt'']))
       = Inl (OSError ''PermissionError'')"
    by code_simp
  note T = copy_failures_are_skipped[OF h1 h2 h3 h4 h5 h6]
  from T have "snd (filter_and_copy ex_fs ex_req) =
           Inr \<lparr>status = ''success'',
                count = int (length (filter snd ex_attempts)),
                destination_folder = [''out'', ''run'', ''one''],
                copied_files = map (\<lambda>a. os_path_join [''out'', ''run'', ''one'']
                                          (os_path_basename (fst a)))
                                 (filter snd ex_attempts),
                skipped_files = int (length (filter (\<lambda>a. \<not> snd a) ex_attempts))\<rparr>"
    by (rule conjunct1)
  then have 1: "snd (filter_and_copy ex_fs ex_req)
     = Inr \<lparr>status = ''success'', count = 3,
            destination_folder = [''out'', ''run'', ''one''],
            copied_files = [[''out'', ''run'', ''one'', ''a.txt''],
                            [''out'', ''run'', ''one'', ''txt''],
                            [''out'', ''run'', ''one'', ''a.txt'']],
            skipped_files = 1\<rparr>"
    by (simp add: ex_attempts_def os_path_join_def os_path_basename_def)
  from T have "\<forall>xs s ys e. shutil_copy2 (fst (copy_loop ex_fs_made [''out'', ''run'', ''one''] xs [])) s
                          (os_path_join [''out'', ''run'', ''one''] (os_path_basename s)) = Inl e
            \<longrightarrow> copy_loop ex_fs_made [''out'', ''run'', ''one''] (xs @ s # ys) []
                  = copy_loop ex_fs_made [''out'', ''run'', ''one''] (xs @ ys) []"
    by (elim conjE)
  from this[rule_format, OF h7] 1 h7 show ?thesis
    by (intro conjI)
qed








section \<open>Creating folders and writing files\<close>


lemma mkdirs_is_dir: "mkdirs n p = Inr n' \<Longrightarrow> \<exists>es. n' = Dir es"
  by (cases n; cases p) (auto split: option.splits sum.splits)

lemma map_of_snoc_same: "map_of es x = None \<Longrightarrow> map_of (es @ [(x, c)]) x = Some c"
  by (simp add: map_add_def)

lemma map_of_snoc_other: "y \<noteq> x \<Longrightarrow> map_of (es @ [(x, c)]) y = map_of es y"
  by (simp add: map_add_def split: option.splits)

lemma map_of_update_same: "map_of (AList.update x c es) x = Some c"
  by (simp add: update_conv')

lemma map_of_update_other: "y \<noteq> x \<Longrightarrow> map_of (AList.update x c es) y = map_of es y"
  by (simp add: update_conv')

lemma mkdirs_creates: "mkdirs n p = Inr n' \<Longrightarrow> \<exists>es. lookup n' p = Some (Dir es)"
proof (induction n p arbitrary: n' rule: mkdirs.induct)
  case (1 es)
  then show ?case by auto
next
  case (2 f)
  then show ?case by simp
next
  case (3 f x p)
  then show ?case by simp
next
  case (4 es x p)
  show ?case
  proof (cases "map_of es x")
    case None
    then obtain c where c: "mkdirs (Dir []) p = Inr c" and n': "n' = Dir (es @ [(x, c)])"
      using "4.prems" by (auto split: sum.splits)
    from "4.IH"(1)[OF None c] show ?thesis
      using n' None by (simp add: map_of_snoc_same del: map_of_append)
  next
    case (Some c0)
    then obtain c where c: "mkdirs c0 p = Inr c" and n': "n' = Dir (AList.update x c es)"
      using "4.prems" by (auto split: sum.splits)
    from "4.IH"(2)[OF Some c] show ?thesis
      using n' by (simp add: map_of_update_same)
  qed
qed


lemma mkdirs_keeps_files:
  "mkdirs n p = Inr n' \<Longrightarrow> lookup n' q = Some (File f) \<longleftrightarrow> lookup n q = Some (File f)"
proof (induction n p arbitrary: n' q rule: mkdirs.induct)
  case (1 es)
  then show ?case by auto
next
  case (2 g)
  then show ?case by simp
next
  case (3 g x p)
  then show ?case by simp
next
  case (4 es x p)
  show ?case
  proof (cases q)
    case Nil
    then show ?thesis using mkdirs_is_dir[OF "4.prems"(1)] by auto
  next
    case (Cons y q')
    show ?thesis
    proof (cases "map_of es x")
      case None
      then obtain c where c: "mkdirs (Dir []) p = Inr c" and n': "n' = Dir (es @ [(x, c)])"
        using "4.prems"(1) by (auto split: sum.splits)
      show ?thesis
      proof (cases "y = x")
        case True
        have "lookup c q' = Some (File f) \<longleftrightarrow> lookup (Dir []) q' = Some (File f)"
          using "4.IH"(1)[OF None c] .
        moreover have "lookup (Dir []) q' \<noteq> Some (File f)" by (cases q') auto
        ultimately show ?thesis using n' Cons True None
          by (simp add: map_of_snoc_same del: map_of_append)
      next
        case False
        then show ?thesis using Cons n' by (simp add: map_of_snoc_other del: map_of_append)
      qed
    next
      case (Some c0)
      then obtain c where c: "mkdirs c0 p = Inr c" and n': "n' = Dir (AList.update x c es)"
        using "4.prems"(1) by (auto split: sum.splits)
      show ?thesis
      proof (cases "y = x")
        case True
        from "4.IH"(2)[OF Some c] show ?thesis
          using n' Cons True Some by (simp add: map_of_update_same)
      next
        case False
        then show ?thesis using Cons n' by (simp add: map_of_update_other)
      qed
    qed
  qed
qed















lemma os_makedirs_tree:
  "os_makedirs fs p = Inr fs' \<Longrightarrow> mkdirs (tree fs) p = Inr (tree fs') \<and> clock fs' = clock fs"
  by (auto simp: os_makedirs_def split: sum.splits)


lemma os_makedirs_creates:
  assumes "os_makedirs fs p = Inr fs'"
  shows "os_path_isdir fs' p"
  using mkdirs_creates[OF conjunct1[OF os_makedirs_tree[OF assms]]]
  by (auto simp: os_path_isdir_def)




lemma filter_and_copy_Inl:
  assumes "filter_and_copy fs req = (fs', Inl e)"
  shows "fs' = fs
     \<or> os_makedirs fs (os_path_join (dest_folder_base req) (dest_folder_name req)) = Inr fs'"
  using assms unfolding filter_and_copy_def Let_def
  by (auto split: if_splits sum.splits prod.splits)

section \<open>Failed requests and repeated requests\<close>

text \<open>
  Claim C3, as amended. A request that fails copies no file: every file of the tree is as
  it was and no file is new. A request rejected for its source folder or its destination
  base leaves the filesystem untouched; a request rejected later, for its timestamps or
  its formats, has already created the destination folder, since the handler validates the
  two folders, creates the destination, and only then parses the timestamps and formats
  inside the filter.
\<close>

theorem failed_request_copies_nothing:
  assumes "filter_and_copy fs req = (fs', Inl e)"
      and "dest_folder = os_path_join (dest_folder_base req) (dest_folder_name req)"
  shows "(fs' = fs \<or> os_makedirs fs dest_folder = Inr fs')
       \<and> (\<forall>p f. lookup (tree fs') p = Some (File f) \<longleftrightarrow> lookup (tree fs) p = Some (File f))
       \<and> (\<not> os_path_isdir fs (source_folder req) \<or> \<not> os_path_isdir fs (dest_folder_base req)
            \<longrightarrow> fs' = fs)
       \<and> (os_path_isdir fs (source_folder req) \<and> os_path_isdir fs (dest_folder_base req)
            \<and> os_makedirs fs dest_folder = Inr fs1
          \<longrightarrow> fs' = fs1 \<and> os_path_isdir fs' dest_folder)"
proof (intro conjI allI impI)
  show alt: "fs' = fs \<or> os_makedirs fs dest_folder = Inr fs'"
    using filter_and_copy_Inl[OF assms(1)] assms(2) by simp
  show "\<And>p f. lookup (tree fs') p = Some (File f) \<longleftrightarrow> lookup (tree fs) p = Some (File f)"
    using alt os_makedirs_tree mkdirs_keeps_files by blast
  show "fs' = fs"
    if "\<not> os_path_isdir fs (source_folder req) \<or> \<not> os_path_isdir fs (dest_folder_base req)"
    using that assms(1) unfolding filter_and_copy_def by (auto split: if_splits)
  show "fs' = fs1"
    if "os_path_isdir fs (source_folder req) \<and> os_path_isdir fs (dest_folder_base req)
            \<and> os_makedirs fs dest_folder = Inr fs1"
    using that assms unfolding filter_and_copy_def Let_def
    by (auto split: if_splits sum.splits prod.splits)
  then show "os_path_isdir fs' dest_folder"
    if "os_path_isdir fs (source_folder req) \<and> os_path_isdir fs (dest_folder_base req)
            \<and> os_makedirs fs dest_folder = Inr fs1"
    using that os_makedirs_creates by blast
qed

theorem failed_request_witness:
  "filter_and_copy ex_fs (ex_req\<lparr>from_timestamp := ''2024/01/01''\<rparr>)
     = (ex_fs_made, Inl (HTTPException 400 (''400: '' @ invalid_timestamp_detail)))
   \<and> os_path_isdir ex_fs_made [''out'', ''run'', ''one'']
   \<and> (lookup (tree ex_fs_made) [''src'', ''a.txt''] = Some (File ex_file)
        \<longleftrightarrow> lookup (tree ex_fs) [''src'', ''a.txt''] = Some (File ex_file))
   \<and> \<not> os_path_isdir ex_fs (source_folder (ex_req\<lparr>source_folder := [''nowhere'']\<rparr>))
   \<and> fst (filter_and_copy ex_fs (ex_req\<lparr>source_folder := [''nowhere'']\<rparr>)) = ex_fs"
proof -
  let ?lost = "ex_req\<lparr>source_folder := [''nowhere'']\<rparr>"
  have g1: "filter_and_copy ex_fs ?lost
     = (fst (filter_and_copy ex_fs ?lost),
        Inl (HTTPException 400 ''Source folder does not exist or is not a directory: /nowhere''))"
    by code_simp
  have g2: "[''out'', ''run'', ''one'']
              = os_path_join (dest_folder_base ?lost) (dest_folder_name ?lost)"
    by code_simp
  have g3: "\<not> os_path_isdir ex_fs (source_folder ?lost)"
    by code_simp
  from failed_request_copies_nothing[OF g1 g2, of ex_fs]
  have "\<not> os_path_isdir ex_fs (source_folder ?lost)
          \<or> \<not> os_path_isdir ex_fs (dest_folder_base ?lost)
        \<longrightarrow> fst (filter_and_copy ex_fs ?lost) = ex_fs"
    by (elim conjE)
  from this[rule_format, OF disjI1[OF g3]]
  have g4: "fst (filter_and_copy ex_fs ?lost) = ex_fs" .
  let ?req = "ex_req\<lparr>from_timestamp := ''2024/01/01''\<rparr>"
  have h1: "filter_and_copy ex_fs ?req
     = (ex_fs_made, Inl (HTTPException 400 (''400: '' @ invalid_timestamp_detail)))"
    by code_simp
  have h2: "[''out'', ''run'', ''one'']
              = os_path_join (dest_folder_base ?req) (dest_folder_name ?req)"
    by code_simp
  have h3: "os_path_isdir ex_fs (source_folder ?req) \<and> os_path_isdir ex_fs (dest_folder_base ?req)
            \<and> os_makedirs ex_fs [''out'', ''run'', ''one''] = Inr ex_fs_made"
    by code_simp
  note T = failed_request_copies_nothing[OF h1 h2, of ex_fs_made]
  from T have a: "\<forall>p f. lookup (tree ex_fs_made) p = Some (File f)
                      \<longleftrightarrow> lookup (tree ex_fs) p = Some (File f)"
    by (elim conjE)
  from T have "os_path_isdir ex_fs (source_folder ?req) \<and> os_path_isdir ex_fs (dest_folder_base ?req)
            \<and> os_makedirs ex_fs [''out'', ''run'', ''one''] = Inr ex_fs_made
          \<longrightarrow> ex_fs_made = ex_fs_made \<and> os_path_isdir ex_fs_made [''out'', ''run'', ''one'']"
    by (elim conjE)
  from this[rule_format, OF h3] a[rule_format, of "[''src'', ''a.txt'']" ex_file] h1 g3 g4
  show ?thesis
    by blast
qed

text \<open>
  A malformed timestamp is rejected with 400 after the destination folder was created.
\<close>

theorem validation_failure_counterexample:
  "strptime ''2024/01/01'' = Inl (ValueError ''time data does not match format'')
   \<and> filter_and_copy ex_fs (ex_req\<lparr>from_timestamp := ''2024/01/01''\<rparr>)
       = (ex_fs_made, Inl (HTTPException 400 (''400: '' @ invalid_timestamp_detail)))
   \<and> \<not> os_path_isdir ex_fs [''out'', ''run'', ''one'']
   \<and> os_path_isdir ex_fs_made [''out'', ''run'', ''one'']
   \<and> lookup (tree ex_fs) [''out'', ''run''] = None
   \<and> lookup (tree ex_fs_made) [''out'', ''run''] = Some (Dir [(''one'', Dir [])])"
  by code_simp



end
